theory Spec2Isabelle
  imports Complex_Main "HOL-Library.AList"
begin

section \<open>Data model: the tables of the initial schema\<close>

text \<open>
  The tables \<open>profiles\<close>, \<open>swaps\<close> and \<open>transactions\<close> of the initial schema. The
  geometry column of \<open>profiles\<close> and the scheduling, message and meeting columns of
  \<open>swaps\<close>, which no procedure or policy modelled here reads or writes, are left out.
  A table with a primary key is an association list of rows, each the key paired with
  the rest of the row, in insertion order; the primary key constraint is the invariant
  that the keys are distinct, which every INSERT checks and every operation keeps.
  A column is an option, with \<open>None\<close> for NULL, unless the schema declares it
  \<open>NOT NULL\<close>: \<open>credits\<close>, the counters, the rating statistics and the timestamps of a
  profile and the \<open>status\<close> of a swap have a \<open>DEFAULT\<close> but no \<open>NOT NULL\<close>, and a \<open>CHECK\<close>
  passes on NULL, so each of them can be stored as NULL. \<open>INTEGER\<close> is PostgreSQL's
  32-bit integer: a value is an \<open>int\<close>, and every computed value is checked against the
  range (the engine raises \<open>integer out of range\<close>, it never wraps).
  \<open>TIMESTAMP WITH TIME ZONE\<close> is an abstract clock value, and \<open>NOW()\<close> is a parameter of
  each operation. The \<open>id\<close> and the \<open>created_at\<close> of a transaction are generated
  (\<open>gen_random_uuid()\<close>, \<open>NOW()\<close>) and are left out: the ledger is the list of rows in
  insertion order.
\<close>

type_synonym uuid = string
type_synonym timestamptz = nat

datatype swap_status = pending | accepted | in_progress | completed | declined | cancelled

datatype transaction_type = swap_payment | signup_bonus | referral_bonus | admin_adjustment

record Profile =
  email :: string
  full_name :: "string option"
  username :: "string option"
  bio :: "string option"
  avatar_url :: "string option"
  credits :: "int option"
  is_ngo_volunteer :: "bool option"
  location_name :: "string option"
  skills_taught :: "int option"
  skills_learned :: "int option"
  average_rating :: "rat option"
  total_reviews :: "int option"
  created_at :: "timestamptz option"
  updated_at :: "timestamptz option"

record Swap =
  skill_id :: uuid
  teacher_id :: uuid
  learner_id :: uuid
  status :: "swap_status option"
  duration_hours :: int
  total_credits :: int
  swap_updated_at :: "timestamptz option"

record Transaction =
  from_user_id :: "uuid option"
  to_user_id :: uuid
  swap_id :: "uuid option"
  amount :: int
  transaction_type :: transaction_type
  description :: "string option"

record database =
  profiles :: "(uuid \<times> Profile) list"
  swaps :: "(uuid \<times> Swap) list"
  transactions :: "Transaction list"

section \<open>The storage engine: NULL, INTEGER and constraint faults\<close>

text \<open>
  SQL comparisons are three-valued: a comparison with NULL is NULL (\<open>None\<close>), and an
  \<open>IF\<close> or a policy takes a condition only when it is true.
\<close>

definition sql_eq :: "'a option \<Rightarrow> 'a option \<Rightarrow> bool option" where
  "sql_eq x y = (case x of None \<Rightarrow> None
                 | Some a \<Rightarrow> (case y of None \<Rightarrow> None | Some b \<Rightarrow> Some (a = b)))"

definition sql_ne :: "'a option \<Rightarrow> 'a option \<Rightarrow> bool option" where
  "sql_ne x y = (case x of None \<Rightarrow> None
                 | Some a \<Rightarrow> (case y of None \<Rightarrow> None | Some b \<Rightarrow> Some (a \<noteq> b)))"

definition sql_lt :: "int option \<Rightarrow> int option \<Rightarrow> bool option" where
  "sql_lt x y = (case x of None \<Rightarrow> None
                 | Some a \<Rightarrow> (case y of None \<Rightarrow> None | Some b \<Rightarrow> Some (a < b)))"

definition sql_ge :: "int option \<Rightarrow> int option \<Rightarrow> bool option" where
  "sql_ge x y = (case x of None \<Rightarrow> None
                 | Some a \<Rightarrow> (case y of None \<Rightarrow> None | Some b \<Rightarrow> Some (a \<ge> b)))"

definition sql_and :: "bool option \<Rightarrow> bool option \<Rightarrow> bool option" where
  "sql_and p q = (if p = Some False \<or> q = Some False then Some False
                  else if p = Some True \<and> q = Some True then Some True
                  else None)"

definition sql_or :: "bool option \<Rightarrow> bool option \<Rightarrow> bool option" where
  "sql_or p q = (if p = Some True \<or> q = Some True then Some True
                 else if p = Some False \<and> q = Some False then Some False
                 else None)"

definition is_true :: "bool option \<Rightarrow> bool" where
  "is_true p = (p = Some True)"

text \<open>A \<open>CHECK\<close> constraint rejects a row only when its condition is false.\<close>

definition check_passes :: "bool option \<Rightarrow> bool" where
  "check_passes p = (p \<noteq> Some False)"

text \<open>
  The faults the engine raises in the statements modelled here, and \<open>SQLERRM\<close>, the
  engine's message for each. Constraint names are the ones PostgreSQL generates for the
  unnamed constraints of the schema.
\<close>

datatype engine_fault =
    integer_out_of_range
  | check_violation string string
  | foreign_key_violation string string
  | unique_violation string
  | not_null_violation string string
  | rls_violation string

fun SQLERRM :: "engine_fault \<Rightarrow> string" where
  "SQLERRM integer_out_of_range = ''integer out of range''"
| "SQLERRM (check_violation rel con) =
     ''new row for relation \"'' @ rel @ ''\" violates check constraint \"'' @ con @ ''\"''"
| "SQLERRM (foreign_key_violation rel con) =
     ''insert or update on table \"'' @ rel @ ''\" violates foreign key constraint \"'' @ con @ ''\"''"
| "SQLERRM (unique_violation con) =
     ''duplicate key value violates unique constraint \"'' @ con @ ''\"''"
| "SQLERRM (not_null_violation col rel) =
     ''null value in column \"'' @ col @ ''\" of relation \"'' @ rel @ ''\" violates not-null constraint''"
| "SQLERRM (rls_violation rel) =
     ''new row violates row-level security policy for table \"'' @ rel @ ''\"''"

definition int4 :: "int \<Rightarrow> engine_fault + int" where
  "int4 v = (if - 2147483648 \<le> v \<and> v \<le> 2147483647 then Inr v else Inl integer_out_of_range)"

text \<open>INTEGER \<open>+\<close> and \<open>-\<close>: NULL when an operand is NULL, a fault when the result does not fit.\<close>

definition sql_plus :: "int option \<Rightarrow> int option \<Rightarrow> engine_fault + int option" where
  "sql_plus x y =
     (case x of
        None \<Rightarrow> Inr None
      | Some a \<Rightarrow>
          (case y of
             None \<Rightarrow> Inr None
           | Some b \<Rightarrow> (case int4 (a + b) of Inl e \<Rightarrow> Inl e | Inr v \<Rightarrow> Inr (Some v))))"

definition sql_minus :: "int option \<Rightarrow> int option \<Rightarrow> engine_fault + int option" where
  "sql_minus x y =
     (case x of
        None \<Rightarrow> Inr None
      | Some a \<Rightarrow>
          (case y of
             None \<Rightarrow> Inr None
           | Some b \<Rightarrow> (case int4 (a - b) of Inl e \<Rightarrow> Inl e | Inr v \<Rightarrow> Inr (Some v))))"

section \<open>The credit transfer function\<close>

text \<open>
  \<open>handle_swap_completion\<close> returns a JSONB object: \<open>{success, error}\<close> on a failure and
  \<open>{success, message}\<close> on success.
\<close>

record jsonb_result =
  success :: bool
  error :: "string option"
  message :: "string option"

definition failure :: "string \<Rightarrow> jsonb_result" where
  "failure e = \<lparr>success = False, error = Some e, message = None\<rparr>"

definition succeeded :: "string \<Rightarrow> jsonb_result" where
  "succeeded m = \<lparr>success = True, error = None, message = Some m\<rparr>"

text \<open>
  \<open>UPDATE profiles SET ... WHERE id = i\<close>: no row, no change; otherwise the new row is
  computed (an INTEGER result out of range is a fault) and checked against
  \<open>CHECK (credits >= 0)\<close>, which a NULL balance passes.
\<close>

definition update_profile ::
  "uuid \<Rightarrow> (Profile \<Rightarrow> engine_fault + Profile) \<Rightarrow> database \<Rightarrow> engine_fault + database" where
  "update_profile i f db =
     (case map_of (profiles db) i of
        None \<Rightarrow> Inr db
      | Some p \<Rightarrow>
          (case f p of
             Inl e \<Rightarrow> Inl e
           | Inr p' \<Rightarrow>
               if \<not> check_passes (sql_ge (credits p') (Some 0))
                 then Inl (check_violation ''profiles'' ''profiles_credits_check'')
               else Inr (db\<lparr>profiles := AList.update i p' (profiles db)\<rparr>)))"

text \<open>\<open>SET credits = credits - total_credits\<close> (the learner).\<close>

definition debit_credits :: "int \<Rightarrow> Profile \<Rightarrow> engine_fault + Profile" where
  "debit_credits c p =
     (case sql_minus (credits p) (Some c) of
        Inl e \<Rightarrow> Inl e
      | Inr v \<Rightarrow> Inr (p\<lparr>credits := v\<rparr>))"

text \<open>\<open>SET credits = credits + total_credits, skills_taught = skills_taught + 1\<close> (the teacher).\<close>

definition credit_teacher :: "int \<Rightarrow> Profile \<Rightarrow> engine_fault + Profile" where
  "credit_teacher c p =
     (case sql_plus (credits p) (Some c) of
        Inl e \<Rightarrow> Inl e
      | Inr v \<Rightarrow>
          (case sql_plus (skills_taught p) (Some 1) of
             Inl e \<Rightarrow> Inl e
           | Inr n \<Rightarrow> Inr (p\<lparr>credits := v, skills_taught := n\<rparr>)))"

text \<open>\<open>SET skills_learned = skills_learned + 1\<close> (the learner).\<close>

definition bump_skills_learned :: "Profile \<Rightarrow> engine_fault + Profile" where
  "bump_skills_learned p =
     (case sql_plus (skills_learned p) (Some 1) of
        Inl e \<Rightarrow> Inl e
      | Inr n \<Rightarrow> Inr (p\<lparr>skills_learned := n\<rparr>))"

text \<open>\<open>UPDATE swaps SET status = 'completed', updated_at = NOW() WHERE id = swap_uuid\<close>.\<close>

definition complete_swap :: "timestamptz \<Rightarrow> uuid \<Rightarrow> database \<Rightarrow> database" where
  "complete_swap now swap_uuid db =
     (case map_of (swaps db) swap_uuid of
        None \<Rightarrow> db
      | Some s \<Rightarrow>
          db\<lparr>swaps := AList.update swap_uuid
                 (s\<lparr>status := Some completed, swap_updated_at := Some now\<rparr>) (swaps db)\<rparr>)"

text \<open>
  \<open>INSERT INTO transactions\<close>: the three references are checked against their tables
  (a NULL reference is not checked), then the row is appended.
\<close>

definition insert_transaction :: "Transaction \<Rightarrow> database \<Rightarrow> engine_fault + database" where
  "insert_transaction row db =
     (if (case from_user_id row of None \<Rightarrow> False | Some u \<Rightarrow> map_of (profiles db) u = None)
        then Inl (foreign_key_violation ''transactions'' ''transactions_from_user_id_fkey'')
      else if map_of (profiles db) (to_user_id row) = None
        then Inl (foreign_key_violation ''transactions'' ''transactions_to_user_id_fkey'')
      else if (case swap_id row of None \<Rightarrow> False | Some s \<Rightarrow> map_of (swaps db) s = None)
        then Inl (foreign_key_violation ''transactions'' ''transactions_swap_id_fkey'')
      else Inr (db\<lparr>transactions := transactions db @ [row]\<rparr>))"

definition payment_row :: "uuid \<Rightarrow> Swap \<Rightarrow> Transaction" where
  "payment_row swap_uuid swap_record =
     \<lparr>from_user_id = Some (learner_id swap_record),
      to_user_id = teacher_id swap_record,
      swap_id = Some swap_uuid,
      amount = total_credits swap_record,
      transaction_type = swap_payment,
      description = Some ''Payment for completed skill swap''\<rparr>"

text \<open>
  The statements of the inner block after the balance check, in the order of the source.
  The first fault ends the block; the state it returns is the one all five statements
  have run on.
\<close>

definition transfer_credits :: "timestamptz \<Rightarrow> uuid \<Rightarrow> Swap \<Rightarrow> database \<Rightarrow> engine_fault + database" where
  "transfer_credits now swap_uuid swap_record db =
     (case update_profile (learner_id swap_record) (debit_credits (total_credits swap_record)) db of
        Inl e \<Rightarrow> Inl e
      | Inr db1 \<Rightarrow>
     (case update_profile (teacher_id swap_record) (credit_teacher (total_credits swap_record)) db1 of
        Inl e \<Rightarrow> Inl e
      | Inr db2 \<Rightarrow>
     (case update_profile (learner_id swap_record) bump_skills_learned db2 of
        Inl e \<Rightarrow> Inl e
      | Inr db3 \<Rightarrow>
          insert_transaction (payment_row swap_uuid swap_record) (complete_swap now swap_uuid db3))))"

text \<open>
  \<open>(SELECT credits FROM profiles WHERE id = i)\<close>: NULL when there is no such row, and
  when the row's balance is NULL.
\<close>

definition select_credits :: "database \<Rightarrow> uuid \<Rightarrow> int option" where
  "select_credits db i = (case map_of (profiles db) i of None \<Rightarrow> None | Some p \<Rightarrow> credits p)"

text \<open>
  \<open>handle_swap_completion(swap_uuid)\<close>, called with \<open>auth.uid()\<close> = \<open>auth_uid\<close> (NULL for a
  call that carries no user session) at time \<open>now\<close>. It returns the JSONB result and the
  database after the call. Each \<open>IF\<close> is taken only when its condition is true: a NULL
  status, caller or balance makes the condition NULL and the check is passed over. The
  inner block has an \<open>EXCEPTION WHEN OTHERS\<close> handler: a
  fault in it undoes the block's changes and becomes the result
  \<open>{success: false, error: SQLERRM}\<close>.
\<close>

definition handle_swap_completion ::
  "uuid option \<Rightarrow> timestamptz \<Rightarrow> uuid \<Rightarrow> database \<Rightarrow> jsonb_result \<times> database" where
  "handle_swap_completion auth_uid now swap_uuid db =
     (case map_of (swaps db) swap_uuid of
        None \<Rightarrow> (failure ''Swap not found'', db)
      | Some swap_record \<Rightarrow>
          if is_true (sql_ne (status swap_record) (Some in_progress))
            then (failure ''Swap is not in progress'', db)
          else if is_true (sql_and (sql_ne auth_uid (Some (teacher_id swap_record)))
                                   (sql_ne auth_uid (Some (learner_id swap_record))))
            then (failure ''Unauthorized'', db)
          else if is_true (sql_lt (select_credits db (learner_id swap_record))
                                  (Some (total_credits swap_record)))
            then (failure ''Insufficient credits'', db)
          else
            (case transfer_credits now swap_uuid swap_record db of
               Inl e \<Rightarrow> (failure (SQLERRM e), db)
             | Inr db' \<Rightarrow> (succeeded ''Swap completed successfully'', db')))"

text \<open>A sequence of calls, each with its caller, its time and its swap, run one after the other.\<close>

fun settle_calls :: "(uuid option \<times> timestamptz \<times> uuid) list \<Rightarrow> database \<Rightarrow> database" where
  "settle_calls [] db = db"
| "settle_calls ((auth_uid, now, swap_uuid) # calls) db =
     settle_calls calls (snd (handle_swap_completion auth_uid now swap_uuid db))"

text \<open>The sum of all profile balances (\<open>SUM(credits)\<close> passes over a NULL balance).\<close>

definition balance :: "Profile \<Rightarrow> int" where
  "balance p = (case credits p of None \<Rightarrow> 0 | Some b \<Rightarrow> b)"

definition total_balance :: "database \<Rightarrow> int" where
  "total_balance db = sum_list (map (\<lambda>row. balance (snd row)) (profiles db))"

text \<open>No stored balance is NULL.\<close>

definition numeric_balances :: "database \<Rightarrow> bool" where
  "numeric_balances db = list_all (\<lambda>row. credits (snd row) \<noteq> None) (profiles db)"

text \<open>The primary key constraints of \<open>profiles\<close> and \<open>swaps\<close>.\<close>

definition primary_keys :: "database \<Rightarrow> bool" where
  "primary_keys db = (distinct (map fst (profiles db)) \<and> distinct (map fst (swaps db)))"

section \<open>The update policy on swaps\<close>

text \<open>
  \<open>CREATE POLICY "Users can update their swaps" ON swaps FOR UPDATE
  USING (auth.uid() = teacher_id OR auth.uid() = learner_id)\<close>: the only check on an
  update of a swap row. A row the policy does not admit is not visible to the UPDATE,
  which then changes nothing and raises nothing.
\<close>

definition users_can_update_their_swaps :: "uuid option \<Rightarrow> Swap \<Rightarrow> bool" where
  "users_can_update_their_swaps auth_uid s =
     is_true (sql_or (sql_eq auth_uid (Some (teacher_id s)))
                     (sql_eq auth_uid (Some (learner_id s))))"

text \<open>
  \<open>UPDATE swaps SET status = new_status WHERE id = swap_uuid\<close> issued by \<open>auth_uid\<close>
  under that policy. \<open>CHECK (status IN (...))\<close> admits the six values of \<open>swap_status\<close>
  and NULL.
\<close>

definition update_swap_status ::
  "uuid option \<Rightarrow> uuid \<Rightarrow> swap_status option \<Rightarrow> database \<Rightarrow> database" where
  "update_swap_status auth_uid swap_uuid new_status db =
     (case map_of (swaps db) swap_uuid of
        None \<Rightarrow> db
      | Some s \<Rightarrow>
          if users_can_update_their_swaps auth_uid s
            then db\<lparr>swaps := AList.update swap_uuid (s\<lparr>status := new_status\<rparr>) (swaps db)\<rparr>
          else db)"

text \<open>The status column of a swap row: \<open>None\<close> when there is no row, \<open>Some None\<close> for NULL.\<close>

definition swap_status_of :: "database \<Rightarrow> uuid \<Rightarrow> swap_status option option" where
  "swap_status_of db swap_uuid = map_option status (map_of (swaps db) swap_uuid)"

section \<open>Profile provisioning\<close>

text \<open>
  The row of \<open>auth.users\<close> the trigger receives as \<open>NEW\<close>: \<open>email\<close> is nullable there, and
  \<open>raw_user_meta_data\<close> is a JSON object read with \<open>->>\<close> (the text at a key, NULL when
  the key is absent).
\<close>

record auth_user =
  user_id :: uuid
  user_email :: "string option"
  raw_user_meta_data :: "(string \<times> string) list"

fun coalesce :: "'a option list \<Rightarrow> 'a option" where
  "coalesce [] = None"
| "coalesce (None # xs) = coalesce xs"
| "coalesce (Some x # xs) = Some x"

text \<open>\<open>split_part(e, '@', 1)\<close>: the text before the first \<open>@\<close>, all of it when there is none.\<close>

definition split_part_at :: "string \<Rightarrow> string" where
  "split_part_at e = takeWhile (\<lambda>c. c \<noteq> CHR ''@'') e"

text \<open>
  The row \<open>INSERT INTO profiles (id, email, full_name, avatar_url)\<close> stores: every other
  column takes its \<open>DEFAULT\<close> (NULL where none is declared).
\<close>

definition profile_defaults :: "timestamptz \<Rightarrow> string \<Rightarrow> string option \<Rightarrow> string option \<Rightarrow> Profile" where
  "profile_defaults now e fn av =
     \<lparr>email = e, full_name = fn, username = None, bio = None, avatar_url = av,
      credits = Some 100, is_ngo_volunteer = Some False, location_name = None,
      skills_taught = Some 0, skills_learned = Some 0, average_rating = Some 0,
      total_reviews = Some 0, created_at = Some now, updated_at = Some now\<rparr>"

text \<open>\<open>email TEXT UNIQUE\<close>: whether a stored row already has this email.\<close>

definition email_taken :: "database \<Rightarrow> string \<Rightarrow> bool" where
  "email_taken db e = list_ex (\<lambda>row. email (snd row) = e) (profiles db)"

text \<open>
  The values proposed for \<open>full_name\<close> and \<open>avatar_url\<close>:
  \<open>COALESCE(NEW.raw_user_meta_data->>'full_name', NEW.raw_user_meta_data->>'name',
  split_part(NEW.email, '@', 1))\<close> and \<open>NEW.raw_user_meta_data->>'avatar_url'\<close>.
\<close>

definition excluded_full_name :: "auth_user \<Rightarrow> string option" where
  "excluded_full_name NEW =
     coalesce [map_of (raw_user_meta_data NEW) ''full_name'',
               map_of (raw_user_meta_data NEW) ''name'',
               map_option split_part_at (user_email NEW)]"

definition excluded_avatar_url :: "auth_user \<Rightarrow> string option" where
  "excluded_avatar_url NEW = map_of (raw_user_meta_data NEW) ''avatar_url''"

text \<open>
  \<open>handle_new_user()\<close>, the trigger function run after an insert on \<open>auth.users\<close>. The
  proposed row is checked against \<open>email NOT NULL\<close> first; a row with the same \<open>id\<close>
  sends the statement to \<open>DO UPDATE\<close>, where \<open>EXCLUDED\<close> is the proposed row; otherwise
  the row is inserted, unless its email is taken. A fault is not handled in the function.
\<close>

definition handle_new_user :: "timestamptz \<Rightarrow> auth_user \<Rightarrow> database \<Rightarrow> engine_fault + database" where
  "handle_new_user now NEW db =
     (case user_email NEW of
        None \<Rightarrow> Inl (not_null_violation ''email'' ''profiles'')
      | Some e \<Rightarrow>
          (case map_of (profiles db) (user_id NEW) of
             Some p \<Rightarrow>
               Inr (db\<lparr>profiles := AList.update (user_id NEW)
                      (p\<lparr>full_name := coalesce [excluded_full_name NEW, full_name p],
                         avatar_url := coalesce [excluded_avatar_url NEW, avatar_url p],
                         updated_at := Some now\<rparr>) (profiles db)\<rparr>)
           | None \<Rightarrow>
               if email_taken db e then Inl (unique_violation ''profiles_email_key'')
               else Inr (db\<lparr>profiles := profiles db @
                      [(user_id NEW,
                        profile_defaults now e (excluded_full_name NEW) (excluded_avatar_url NEW))]\<rparr>)))"

text \<open>The trigger run again and again, at the given times, until a run faults.\<close>

fun provision_runs :: "timestamptz list \<Rightarrow> auth_user \<Rightarrow> database \<Rightarrow> engine_fault + database" where
  "provision_runs [] NEW db = Inr db"
| "provision_runs (t # ts) NEW db =
     (case handle_new_user t NEW db of Inl e \<Rightarrow> Inl e | Inr db' \<Rightarrow> provision_runs ts NEW db')"

text \<open>
  The insert of \<open>signUp\<close>: \<open>supabase.from('profiles').insert({id, email, full_name})\<close>, a
  plain INSERT under the policy \<open>"Users can insert own profile"\<close>
  (\<open>WITH CHECK (auth.uid() = id)\<close>). \<open>signUp\<close> does not read the outcome.
\<close>

definition signUp_insert :: "uuid option \<Rightarrow> timestamptz \<Rightarrow> uuid \<Rightarrow> string \<Rightarrow> string \<Rightarrow> database
    \<Rightarrow> engine_fault + database" where
  "signUp_insert auth_uid now i e fullName db =
     (if \<not> is_true (sql_eq auth_uid (Some i)) then Inl (rls_violation ''profiles'')
      else if map_of (profiles db) i \<noteq> None then Inl (unique_violation ''profiles_pkey'')
      else if email_taken db e then Inl (unique_violation ''profiles_email_key'')
      else Inr (db\<lparr>profiles := profiles db @ [(i, profile_defaults now e (Some fullName) None)]\<rparr>))"

text \<open>
  What an operation that may fault leaves behind: the profile row of an id after it, and
  the ledger after it; \<open>None\<close> when the operation faulted.
\<close>

definition profile_after :: "engine_fault + database \<Rightarrow> uuid \<Rightarrow> Profile option" where
  "profile_after r i = (case r of Inl e \<Rightarrow> None | Inr db \<Rightarrow> map_of (profiles db) i)"

definition ledger_after :: "engine_fault + database \<Rightarrow> Transaction list option" where
  "ledger_after r = (case r of Inl e \<Rightarrow> None | Inr db \<Rightarrow> Some (transactions db))"

text \<open>The number of profile rows with a given id.\<close>

definition profile_rows :: "database \<Rightarrow> uuid \<Rightarrow> nat" where
  "profile_rows db i = length (filter (\<lambda>row. fst row = i) (profiles db))"

text \<open>
  \<open>updated_at = now()\<close> alone: the row of \<open>i\<close> with its \<open>updated_at\<close> set, every other
  column and row as it is.
\<close>

definition set_updated_at :: "uuid \<Rightarrow> timestamptz \<Rightarrow> database \<Rightarrow> database" where
  "set_updated_at i t db =
     (case map_of (profiles db) i of
        None \<Rightarrow> db
      | Some p \<Rightarrow> db\<lparr>profiles := AList.update i (p\<lparr>updated_at := Some t\<rparr>) (profiles db)\<rparr>)"

text \<open>A row on which the \<open>DO UPDATE\<close> assignments of \<open>NEW\<close> change no name and no picture.\<close>

definition settled_row :: "auth_user \<Rightarrow> Profile \<Rightarrow> bool" where
  "settled_row NEW p =
     (coalesce [excluded_full_name NEW, full_name p] = full_name p
      \<and> coalesce [excluded_avatar_url NEW, avatar_url p] = avatar_url p)"

text \<open>The declared defaults of the balance, the counters and the rating statistics.\<close>

definition starts_with_defaults :: "Profile \<Rightarrow> bool" where
  "starts_with_defaults p =
     (credits p = Some 100 \<and> skills_taught p = Some 0 \<and> skills_learned p = Some 0
      \<and> average_rating p = Some 0 \<and> total_reviews p = Some 0)"

section \<open>Example states\<close>

text \<open>
  A teacher and a learner as provisioning creates them, with the balances set, and one
  swap of 10 credits between them.
\<close>

definition example_profile :: "string \<Rightarrow> int \<Rightarrow> Profile" where
  "example_profile e c = (profile_defaults 1 e None None)\<lparr>credits := Some c\<rparr>"

definition example_swap :: "swap_status \<Rightarrow> Swap" where
  "example_swap st =
     \<lparr>skill_id = ''skill-1'', teacher_id = ''teacher'', learner_id = ''learner'',
      status = Some st,
      duration_hours = 1, total_credits = 10, swap_updated_at = Some 2\<rparr>"

definition example_db :: "int \<Rightarrow> int \<Rightarrow> swap_status \<Rightarrow> database" where
  "example_db teacher_balance learner_balance st =
     \<lparr>profiles = [(''teacher'', example_profile ''teacher@example.org'' teacher_balance),
                  (''learner'', example_profile ''learner@example.org'' learner_balance),
                  (''other'', example_profile ''other@example.org'' 100)],
      swaps = [(''swap-1'', example_swap st)],
      transactions = []\<rparr>"

text \<open>
  The example with the swap \<open>in_progress\<close>, the teacher at 50, and the learner's balance
  set to NULL (an update of the learner's own profile row, which the policy
  \<open>"Users can update own profile"\<close> lets the owner make).
\<close>

definition example_db_null_balance :: database where
  "example_db_null_balance =
     (example_db 50 20 in_progress)
       \<lparr>profiles := AList.update ''learner''
          ((example_profile ''learner@example.org'' 20)\<lparr>credits := None\<rparr>)
          (profiles (example_db 50 20 in_progress))\<rparr>"

text \<open>
  An identity as an identity provider reports it, with the name Bob and a picture, and
  the example state with a profile already stored for it under the name Alice; then that
  state after the trigger has run on it at time 9.
\<close>

definition example_new_user :: auth_user where
  "example_new_user =
     \<lparr>user_id = ''new-user'', user_email = Some ''user@example.org'',
      raw_user_meta_data = [(''name'', ''Bob''), (''avatar_url'', ''https://example.org/b.png'')]\<rparr>"

definition example_db_alice :: database where
  "example_db_alice =
     (example_db 50 20 pending)
       \<lparr>profiles := profiles (example_db 50 20 pending) @
          [(''new-user'', (example_profile ''user@example.org'' 40)\<lparr>full_name := Some ''Alice''\<rparr>)]\<rparr>"

definition example_db_bob :: database where
  "example_db_bob =
     (example_db 50 20 pending)
       \<lparr>profiles := profiles (example_db 50 20 pending) @
          [(''new-user'', (example_profile ''user@example.org'' 40)
              \<lparr>full_name := Some ''Bob'', avatar_url := Some ''https://example.org/b.png'',
               updated_at := Some 9\<rparr>)]\<rparr>"

section \<open>Evaluation and association-list lemmas\<close>

lemmas example_defs = example_db_def example_swap_def example_profile_def profile_defaults_def

lemmas settle_defs = handle_swap_completion_def transfer_credits_def update_profile_def
  debit_credits_def credit_teacher_def bump_skills_learned_def complete_swap_def
  insert_transaction_def payment_row_def select_credits_def int4_def sql_plus_def sql_minus_def
  sql_ge_def check_passes_def is_true_def sql_and_def sql_ne_def sql_lt_def failure_def
  succeeded_def

lemmas provision_defs = handle_new_user_def excluded_full_name_def excluded_avatar_url_def
  split_part_at_def email_taken_def example_new_user_def

lemma update_twist:
  "k \<noteq> k' \<Longrightarrow> map_of al k = Some w \<Longrightarrow>
   AList.update k' v' (AList.update k v al) = AList.update k v (AList.update k' v' al)"
  by (induction al) auto

lemma map_of_update_same: "map_of (AList.update k v al) k = Some v"
  by (simp add: AList.update_conv')

lemma map_of_update_other: "k \<noteq> k' \<Longrightarrow> map_of (AList.update k v al) k' = map_of al k'"
  by (simp add: AList.update_conv')

lemma sum_balance_update:
  "map_of al k = Some p \<Longrightarrow>
   sum_list (map (\<lambda>row. balance (snd row)) (AList.update k p' al))
     = sum_list (map (\<lambda>row. balance (snd row)) al) - balance p + balance p'"
  by (induction al) (auto split: if_splits)

lemma list_all_update:
  "list_all P al \<Longrightarrow> P (k, v) \<Longrightarrow> list_all P (AList.update k v al)"
  by (induction al) auto

lemma list_all_map_of:
  "list_all P al \<Longrightarrow> map_of al k = Some v \<Longrightarrow> P (k, v)"
  by (induction al) (auto split: if_splits)

section \<open>The statements of the transfer, one by one\<close>

lemma update_profile_cases:
  assumes "update_profile i f db = Inr db'"
  shows "(map_of (profiles db) i = None \<and> db' = db)
       \<or> (\<exists>p p'. map_of (profiles db) i = Some p \<and> f p = Inr p'
              \<and> db' = db\<lparr>profiles := AList.update i p' (profiles db)\<rparr>)"
  using assms by (auto simp: update_profile_def split: option.splits sum.splits if_splits)

lemma update_profile_dom:
  assumes "update_profile i f db = Inr db'"
  shows "(map_of (profiles db') j = None) = (map_of (profiles db) j = None)"
  using update_profile_cases [OF assms]
  by (cases "i = j") (auto simp: map_of_update_same map_of_update_other)

lemma update_profile_rest:
  assumes "update_profile i f db = Inr db'"
  shows "swaps db' = swaps db \<and> transactions db' = transactions db"
  using update_profile_cases [OF assms] by auto

lemma debit_credits_Inr:
  "debit_credits c p = Inr p' \<Longrightarrow> credits p = Some b \<Longrightarrow> credits p' = Some (b - c)"
  by (auto simp: debit_credits_def sql_minus_def int4_def split: if_splits)

lemma credit_teacher_Inr:
  "credit_teacher c p = Inr p' \<Longrightarrow> credits p = Some b \<Longrightarrow> credits p' = Some (b + c)"
  by (auto simp: credit_teacher_def sql_plus_def int4_def split: if_splits option.splits)

lemma bump_skills_learned_Inr: "bump_skills_learned p = Inr p' \<Longrightarrow> credits p' = credits p"
  by (auto simp: bump_skills_learned_def sql_plus_def int4_def split: if_splits option.splits)

lemma balance_Some: "credits p = Some b \<Longrightarrow> balance p = b"
  by (simp add: balance_def)

lemma balance_same: "credits p' = credits p \<Longrightarrow> balance p' = balance p"
  by (simp add: balance_def)

lemma numeric_row:
  "numeric_balances db \<Longrightarrow> map_of (profiles db) i = Some p \<Longrightarrow> \<exists>b. credits p = Some b"
  using list_all_map_of [of "\<lambda>row. credits (snd row) \<noteq> None" "profiles db" i p]
  by (auto simp: numeric_balances_def)

lemma update_profile_numeric:
  assumes "update_profile i f db = Inr db'" "numeric_balances db"
    and "\<And>p p'. f p = Inr p' \<Longrightarrow> credits p \<noteq> None \<Longrightarrow> credits p' \<noteq> None"
  shows "numeric_balances db'"
proof -
  from update_profile_cases [OF assms(1)] show ?thesis
  proof
    assume "map_of (profiles db) i = None \<and> db' = db"
    with assms(2) show ?thesis by simp
  next
    assume "\<exists>p p'. map_of (profiles db) i = Some p \<and> f p = Inr p'
              \<and> db' = db\<lparr>profiles := AList.update i p' (profiles db)\<rparr>"
    then obtain p p' where p: "map_of (profiles db) i = Some p" "f p = Inr p'"
      "db' = db\<lparr>profiles := AList.update i p' (profiles db)\<rparr>" by blast
    from numeric_row [OF assms(2) p(1)] have "credits p \<noteq> None" by auto
    with assms(3) [OF p(2)] have "credits p' \<noteq> None" .
    with assms(2) p(3) show ?thesis
      by (simp add: numeric_balances_def list_all_update)
  qed
qed

lemma debit_total:
  assumes "update_profile i (debit_credits c) db = Inr db'" "numeric_balances db"
  shows "total_balance db' = total_balance db - (if map_of (profiles db) i = None then 0 else c)
     \<and> numeric_balances db'"
proof -
  have keep: "numeric_balances db'"
    using assms by (rule update_profile_numeric) (auto dest: debit_credits_Inr)
  from update_profile_cases [OF assms(1)] show ?thesis
  proof
    assume "map_of (profiles db) i = None \<and> db' = db"
    with keep show ?thesis by simp
  next
    assume "\<exists>p p'. map_of (profiles db) i = Some p \<and> debit_credits c p = Inr p'
              \<and> db' = db\<lparr>profiles := AList.update i p' (profiles db)\<rparr>"
    then obtain p p' where p: "map_of (profiles db) i = Some p" "debit_credits c p = Inr p'"
      "db' = db\<lparr>profiles := AList.update i p' (profiles db)\<rparr>" by blast
    from numeric_row [OF assms(2) p(1)] obtain b where b: "credits p = Some b" by blast
    from debit_credits_Inr [OF p(2) b] b p(1,3) keep show ?thesis
      by (simp add: total_balance_def sum_balance_update balance_Some)
  qed
qed

lemma credit_total:
  assumes "update_profile i (credit_teacher c) db = Inr db'" "numeric_balances db"
  shows "total_balance db' = total_balance db + (if map_of (profiles db) i = None then 0 else c)
     \<and> numeric_balances db'"
proof -
  have keep: "numeric_balances db'"
    using assms by (rule update_profile_numeric) (auto dest: credit_teacher_Inr)
  from update_profile_cases [OF assms(1)] show ?thesis
  proof
    assume "map_of (profiles db) i = None \<and> db' = db"
    with keep show ?thesis by simp
  next
    assume "\<exists>p p'. map_of (profiles db) i = Some p \<and> credit_teacher c p = Inr p'
              \<and> db' = db\<lparr>profiles := AList.update i p' (profiles db)\<rparr>"
    then obtain p p' where p: "map_of (profiles db) i = Some p" "credit_teacher c p = Inr p'"
      "db' = db\<lparr>profiles := AList.update i p' (profiles db)\<rparr>" by blast
    from numeric_row [OF assms(2) p(1)] obtain b where b: "credits p = Some b" by blast
    from credit_teacher_Inr [OF p(2) b] b p(1,3) keep show ?thesis
      by (simp add: total_balance_def sum_balance_update balance_Some)
  qed
qed

lemma bump_total:
  assumes "update_profile i bump_skills_learned db = Inr db'" "numeric_balances db"
  shows "total_balance db' = total_balance db \<and> numeric_balances db'"
proof -
  have keep: "numeric_balances db'"
    using assms by (rule update_profile_numeric) (auto dest: bump_skills_learned_Inr)
  from update_profile_cases [OF assms(1)] keep show ?thesis
    by (auto simp: total_balance_def sum_balance_update
        dest!: bump_skills_learned_Inr balance_same)
qed

lemma complete_swap_profiles: "profiles (complete_swap now sid db) = profiles db"
  by (simp add: complete_swap_def split: option.splits)

lemma insert_transaction_profiles:
  "insert_transaction row db = Inr db' \<Longrightarrow> profiles db' = profiles db"
  by (auto simp: insert_transaction_def split: if_splits)

lemma insert_transaction_refs:
  "insert_transaction (payment_row sid s) db = Inr db' \<Longrightarrow>
     map_of (profiles db) (learner_id s) \<noteq> None \<and> map_of (profiles db) (teacher_id s) \<noteq> None"
  by (auto simp: insert_transaction_def payment_row_def split: if_splits)

text \<open>
  When no stored balance is NULL, a transfer that runs to its end leaves the sum of the
  balances as it was, and leaves no balance NULL: the ledger insert checks that both
  parties have a profile, so the debit and the credit both took place, also when the
  teacher is the learner.
\<close>

lemma transfer_credits_total:
  assumes "transfer_credits now sid s db = Inr db'" "numeric_balances db"
  shows "total_balance db' = total_balance db \<and> numeric_balances db'"
proof -
  from assms(1) obtain db1 db2 db3 where
    u1: "update_profile (learner_id s) (debit_credits (total_credits s)) db = Inr db1" and
    u2: "update_profile (teacher_id s) (credit_teacher (total_credits s)) db1 = Inr db2" and
    u3: "update_profile (learner_id s) bump_skills_learned db2 = Inr db3" and
    ins: "insert_transaction (payment_row sid s) (complete_swap now sid db3) = Inr db'"
    by (auto simp: transfer_credits_def split: sum.splits)
  note s1 = debit_total [OF u1 assms(2)]
  note s2 = credit_total [OF u2 s1 [THEN conjunct2]]
  note s3 = bump_total [OF u3 s2 [THEN conjunct2]]
  have refs: "map_of (profiles db3) (learner_id s) \<noteq> None"
      "map_of (profiles db3) (teacher_id s) \<noteq> None"
    using insert_transaction_refs [OF ins] by (simp_all add: complete_swap_profiles)
  have l0: "map_of (profiles db) (learner_id s) \<noteq> None"
    using refs(1) update_profile_dom [OF u3] update_profile_dom [OF u2] update_profile_dom [OF u1]
    by simp
  have t1: "map_of (profiles db1) (teacher_id s) \<noteq> None"
    using refs(2) update_profile_dom [OF u3] update_profile_dom [OF u2] by simp
  have same: "profiles db' = profiles db3"
    using insert_transaction_profiles [OF ins] by (simp add: complete_swap_profiles)
  have "total_balance db' = total_balance db3"
    using same by (simp add: total_balance_def)
  also have "\<dots> = total_balance db2" using s3 by simp
  also have "\<dots> = total_balance db1 + total_credits s" using s2 t1 by simp
  also have "\<dots> = total_balance db" using s1 l0 by simp
  finally have "total_balance db' = total_balance db" .
  moreover have "numeric_balances db'"
    using s3 same by (simp add: numeric_balances_def)
  ultimately show ?thesis ..
qed

lemma settle_keeps_total:
  assumes "numeric_balances db"
  shows "total_balance (snd (handle_swap_completion auth_uid now sid db)) = total_balance db
     \<and> numeric_balances (snd (handle_swap_completion auth_uid now sid db))"
  using assms
  by (simp add: handle_swap_completion_def transfer_credits_total split: option.splits sum.splits)

text \<open>
  On a database in which no balance is NULL, any sequence of settlement calls leaves the
  sum of the balances unchanged.
\<close>

lemma settle_conserves_numeric_balances:
  "numeric_balances db \<Longrightarrow>
     total_balance (settle_calls calls db) = total_balance db
     \<and> numeric_balances (settle_calls calls db)"
proof (induction calls db rule: settle_calls.induct)
  case (1 db)
  then show ?case by simp
next
  case (2 auth_uid now swap_uuid calls db)
  from settle_keeps_total [OF "2.prems", of auth_uid now swap_uuid]
  show ?case using "2.IH" by simp
qed

lemma settle_failure_keeps:
  "\<not> success (fst (handle_swap_completion auth_uid now sid db))
      \<Longrightarrow> snd (handle_swap_completion auth_uid now sid db) = db"
  by (simp add: handle_swap_completion_def succeeded_def split: option.splits sum.splits if_splits)

lemma settle_insufficient:
  assumes "map_of (swaps db) sid = Some s" "status s = Some in_progress"
    "auth_uid = Some (teacher_id s) \<or> auth_uid = Some (learner_id s)"
    "map_of (profiles db) (learner_id s) = Some pl" "credits pl = Some b" "b < total_credits s"
  shows "handle_swap_completion auth_uid now sid db = (failure ''Insufficient credits'', db)"
proof -
  have open_swap: "\<not> is_true (sql_ne (status s) (Some in_progress))"
    using assms(2) by (simp add: is_true_def sql_ne_def)
  have auth: "\<not> is_true (sql_and (sql_ne auth_uid (Some (teacher_id s)))
      (sql_ne auth_uid (Some (learner_id s))))"
    using assms(3) by (auto simp: is_true_def sql_and_def sql_ne_def)
  have low: "is_true (sql_lt (select_credits db (learner_id s)) (Some (total_credits s)))"
    using assms(4,5,6) by (simp add: is_true_def sql_lt_def select_credits_def)
  show ?thesis
    unfolding handle_swap_completion_def using assms(1) open_swap auth low by simp
qed

text \<open>
  A fault in the transfer, once the three checks are passed, is the result: the
  engine's message for it, and the database as before the call.
\<close>

lemma settle_fault_passed_on:
  assumes "map_of (swaps db) sid = Some s"
    and "\<not> is_true (sql_ne (status s) (Some in_progress))"
    and "\<not> is_true (sql_and (sql_ne auth_uid (Some (teacher_id s)))
                            (sql_ne auth_uid (Some (learner_id s))))"
    and "\<not> is_true (sql_lt (select_credits db (learner_id s)) (Some (total_credits s)))"
    and "transfer_credits now sid s db = Inl e"
  shows "handle_swap_completion auth_uid now sid db = (failure (SQLERRM e), db)"
  unfolding handle_swap_completion_def using assms by simp

section \<open>Settlement: the successful transfer\<close>

text \<open>
  C1. For a swap \<open>s\<close> in state \<open>in_progress\<close> with distinct teacher and learner (both with
  a profile whose balance and counter are numbers, not NULL) and a positive
  \<open>total_credits\<close>, a call by the teacher or the learner with the learner's balance at
  least \<open>total_credits\<close> succeeds, provided the three INTEGER results of the transfer fit
  (the teacher's new balance and the two counters). The database after the call is the
  one before it with exactly these changes: the learner's balance less \<open>total_credits\<close>
  and \<open>skills_learned\<close> plus one, the teacher's balance plus \<open>total_credits\<close> and
  \<open>skills_taught\<close> plus one, the swap \<open>completed\<close> (and its \<open>updated_at\<close> set), and one
  \<open>swap_payment\<close> row appended to the ledger.
\<close>

theorem settle_success_exact:
  assumes sw: "map_of (swaps db) sid = Some s" and st: "status s = Some in_progress"
    and act: "auth_uid = Some (teacher_id s) \<or> auth_uid = Some (learner_id s)"
    and pl: "map_of (profiles db) (learner_id s) = Some pl"
    and pt: "map_of (profiles db) (teacher_id s) = Some pt"
    and ne: "teacher_id s \<noteq> learner_id s"
    and pos: "0 < total_credits s"
    and bl: "credits pl = Some bl" and bal: "total_credits s \<le> bl"
    and bt: "credits pt = Some bt"
    and nt: "skills_taught pt = Some nt" and nl: "skills_learned pl = Some nl"
    and stored: "bl \<le> 2147483647" "0 \<le> bt" "- 2147483648 \<le> nt" "- 2147483648 \<le> nl"
    and fit: "bt + total_credits s \<le> 2147483647" "nt < 2147483647" "nl < 2147483647"
  shows "handle_swap_completion auth_uid now sid db =
     (succeeded ''Swap completed successfully'',
      db\<lparr>profiles :=
            AList.update (learner_id s)
              (pl\<lparr>credits := Some (bl - total_credits s), skills_learned := Some (nl + 1)\<rparr>)
              (AList.update (teacher_id s)
                 (pt\<lparr>credits := Some (bt + total_credits s), skills_taught := Some (nt + 1)\<rparr>)
                 (profiles db)),
         swaps := AList.update sid
            (s\<lparr>status := Some completed, swap_updated_at := Some now\<rparr>) (swaps db),
         transactions := transactions db @ [payment_row sid s]\<rparr>)"
proof -
  let ?l = "learner_id s" and ?t = "teacher_id s" and ?c = "total_credits s"
  let ?p1 = "pl\<lparr>credits := Some (bl - ?c)\<rparr>"
  let ?pt' = "pt\<lparr>credits := Some (bt + ?c), skills_taught := Some (nt + 1)\<rparr>"
  let ?p3 = "pl\<lparr>credits := Some (bl - ?c), skills_learned := Some (nl + 1)\<rparr>"
  let ?db1 = "db\<lparr>profiles := AList.update ?l ?p1 (profiles db)\<rparr>"
  let ?db2 = "db\<lparr>profiles := AList.update ?t ?pt' (AList.update ?l ?p1 (profiles db))\<rparr>"
  let ?db3 = "db\<lparr>profiles := AList.update ?l ?p3 (AList.update ?t ?pt' (profiles db))\<rparr>"
  have open_swap: "\<not> is_true (sql_ne (status s) (Some in_progress))"
    using st by (simp add: is_true_def sql_ne_def)
  have auth: "\<not> is_true (sql_and (sql_ne auth_uid (Some ?t)) (sql_ne auth_uid (Some ?l)))"
    using act by (auto simp: is_true_def sql_and_def sql_ne_def)
  have enough: "\<not> is_true (sql_lt (select_credits db ?l) (Some ?c))"
    using pl bl bal by (simp add: is_true_def sql_lt_def select_credits_def)
  have d1: "update_profile ?l (debit_credits ?c) db = Inr ?db1"
    using pl bl bal pos stored
    by (simp add: update_profile_def debit_credits_def sql_minus_def int4_def sql_ge_def
        check_passes_def)
  have d2: "update_profile ?t (credit_teacher ?c) ?db1 = Inr ?db2"
    using pt ne pos bt nt stored fit
    by (simp add: update_profile_def credit_teacher_def sql_plus_def int4_def sql_ge_def
        check_passes_def map_of_update_other)
  have tw: "AList.update ?l ?p3 (AList.update ?t ?pt' (AList.update ?l ?p1 (profiles db)))
      = AList.update ?l ?p3 (AList.update ?t ?pt' (profiles db))"
    using update_twist [OF ne pt, of ?p1 ?pt', symmetric] by (simp add: AList.update_last)
  have d3: "update_profile ?l bump_skills_learned ?db2 = Inr ?db3"
    using ne pos bal nl stored fit tw
    by (simp add: update_profile_def bump_skills_learned_def sql_plus_def int4_def sql_ge_def
        check_passes_def map_of_update_other map_of_update_same)
  have tr: "transfer_credits now sid s db =
      Inr (db\<lparr>profiles := AList.update ?l ?p3 (AList.update ?t ?pt' (profiles db)),
         swaps := AList.update sid
            (s\<lparr>status := Some completed, swap_updated_at := Some now\<rparr>) (swaps db),
         transactions := transactions db @ [payment_row sid s]\<rparr>)"
    unfolding transfer_credits_def d1 d2 d3 sum.case
    using sw ne
    by (simp add: complete_swap_def insert_transaction_def payment_row_def
        map_of_update_other map_of_update_same)
  show ?thesis
    unfolding handle_swap_completion_def using sw open_swap auth enough tr by simp
qed

text \<open>
  The scenario of the specification: \<open>total_credits\<close> 10, the teacher at 50 and the
  learner at 20. The teacher ends at 60, the learner at 10, the swap is \<open>completed\<close>, the
  ledger holds the one payment row, and the third profile is as it was.
\<close>

theorem settle_success_exact_witness:
  "handle_swap_completion (Some ''teacher'') 7 ''swap-1'' (example_db 50 20 in_progress) =
     (succeeded ''Swap completed successfully'',
      \<lparr>profiles =
         [(''teacher'', (example_profile ''teacher@example.org'' 60)\<lparr>skills_taught := Some 1\<rparr>),
          (''learner'', (example_profile ''learner@example.org'' 10)\<lparr>skills_learned := Some 1\<rparr>),
          (''other'', example_profile ''other@example.org'' 100)],
       swaps = [(''swap-1'', (example_swap completed)\<lparr>swap_updated_at := Some 7\<rparr>)],
       transactions =
         [\<lparr>from_user_id = Some ''learner'', to_user_id = ''teacher'', swap_id = Some ''swap-1'',
           amount = 10, transaction_type = swap_payment,
           description = Some ''Payment for completed skill swap''\<rparr>]\<rparr>)"
  using settle_success_exact [of "example_db 50 20 in_progress" "''swap-1''"
      "example_swap in_progress" "Some ''teacher''" "example_profile ''learner@example.org'' 20"
      "example_profile ''teacher@example.org'' 50" 20 50 0 0 7]
  by (simp add: example_defs payment_row_def)

text \<open>
  Without the proviso the statement fails: with the teacher's balance at 2147483647, the
  largest INTEGER, the learner at 20 and \<open>total_credits\<close> 10, the call by the teacher
  does not succeed. The teacher's update raises \<open>integer out of range\<close>, the handler
  returns it, and the database is as before the call.
\<close>

theorem settle_overflow_counterexample:
  "swap_status_of (example_db 2147483647 20 in_progress) ''swap-1'' = Some (Some in_progress)
   \<and> select_credits (example_db 2147483647 20 in_progress) ''learner'' = Some 20
   \<and> handle_swap_completion (Some ''teacher'') 7 ''swap-1'' (example_db 2147483647 20 in_progress)
       = (failure ''integer out of range'', example_db 2147483647 20 in_progress)"
  by (simp add: example_defs settle_defs swap_status_of_def)

section \<open>Settlement: failures\<close>

text \<open>
  C3. A call that fails leaves the database exactly as it was: the swap keeps its status,
  no balance or counter changes and the ledger gets no row. This covers a fault raised by
  one of the statements after the balance check, whose earlier statements are undone. In
  particular, a call by a party on an \<open>in_progress\<close> swap whose learner's balance is
  below \<open>total_credits\<close> fails with \<open>Insufficient credits\<close> and changes nothing.
\<close>

theorem settle_failure_no_effect:
  "(\<not> success (fst (handle_swap_completion auth_uid now sid db))
      \<longrightarrow> snd (handle_swap_completion auth_uid now sid db) = db)
   \<and> (map_of (swaps db) sid = Some s \<and> status s = Some in_progress
       \<and> (auth_uid = Some (teacher_id s) \<or> auth_uid = Some (learner_id s))
       \<and> map_of (profiles db) (learner_id s) = Some pl
       \<and> credits pl = Some b \<and> b < total_credits s
      \<longrightarrow> handle_swap_completion auth_uid now sid db = (failure ''Insufficient credits'', db))"
  using settle_failure_keeps settle_insufficient by blast

text \<open>
  The scenario of the specification (balance 3 against \<open>total_credits\<close> 10), and a fault
  after the balance check: the learner's debit has been applied when the teacher's
  credit overflows, and the database after the call is still the one before it.
\<close>

theorem settle_failure_no_effect_witness:
  "handle_swap_completion (Some ''learner'') 7 ''swap-1'' (example_db 50 3 in_progress)
     = (failure ''Insufficient credits'', example_db 50 3 in_progress)
   \<and> update_profile ''learner'' (debit_credits 10) (example_db 2147483647 20 in_progress)
       \<noteq> Inr (example_db 2147483647 20 in_progress)
   \<and> snd (handle_swap_completion (Some ''learner'') 7 ''swap-1''
           (example_db 2147483647 20 in_progress)) = example_db 2147483647 20 in_progress"
proof (intro conjI)
  show "handle_swap_completion (Some ''learner'') 7 ''swap-1'' (example_db 50 3 in_progress)
     = (failure ''Insufficient credits'', example_db 50 3 in_progress)"
    using settle_failure_no_effect [of "Some ''learner''" 7 "''swap-1''"
        "example_db 50 3 in_progress" "example_swap in_progress"
        "example_profile ''learner@example.org'' 3" 3]
    by (simp add: example_defs)
  show "update_profile ''learner'' (debit_credits 10) (example_db 2147483647 20 in_progress)
       \<noteq> Inr (example_db 2147483647 20 in_progress)"
    by (simp add: example_defs update_profile_def debit_credits_def sql_minus_def int4_def
        sql_ge_def check_passes_def)
  show "snd (handle_swap_completion (Some ''learner'') 7 ''swap-1''
           (example_db 2147483647 20 in_progress)) = example_db 2147483647 20 in_progress"
  proof (rule settle_failure_no_effect [THEN conjunct1, THEN mp])
    show "\<not> success (fst (handle_swap_completion (Some ''learner'') 7 ''swap-1''
           (example_db 2147483647 20 in_progress)))"
      by (simp add: example_defs settle_defs)
  qed
qed

section \<open>Settlement: conservation of credits\<close>

text \<open>
  C4. Settlement does not conserve credits when the learner's stored balance is NULL.
  The balance check compares NULL with \<open>total_credits\<close>, which is NULL, so the \<open>IF\<close> is
  not taken; the debit leaves the balance NULL, which \<open>CHECK (credits >= 0)\<close> passes;
  the teacher is credited. On the example (the teacher at 50, the third profile at 100,
  the learner's balance NULL, \<open>total_credits\<close> 10) the call succeeds, the teacher ends at
  60, the learner's balance is still NULL, and the sum of the balances goes from 150 to
  160. (When no stored balance is NULL the sum is kept:
  \<open>settle_conserves_numeric_balances\<close>.)
\<close>

theorem settle_null_balance_creates_credits:
  "select_credits example_db_null_balance ''learner'' = None
   \<and> total_balance example_db_null_balance = 150
   \<and> fst (handle_swap_completion (Some ''teacher'') 7 ''swap-1'' example_db_null_balance)
       = succeeded ''Swap completed successfully''
   \<and> select_credits
        (snd (handle_swap_completion (Some ''teacher'') 7 ''swap-1'' example_db_null_balance))
        ''teacher'' = Some 60
   \<and> select_credits
        (snd (handle_swap_completion (Some ''teacher'') 7 ''swap-1'' example_db_null_balance))
        ''learner'' = None
   \<and> total_balance (settle_calls [(Some ''teacher'', 7, ''swap-1'')] example_db_null_balance)
       = 160"
  by (simp add: example_db_null_balance_def example_defs settle_defs total_balance_def
      balance_def)

section \<open>Settlement: the shape of an error result\<close>

text \<open>
  C8. The result of a call is the success object, or a failure object that carries one
  of the four fixed messages of the precondition checks, or, when a statement of the
  transfer raised a fault, a failure object whose \<open>error\<close> is \<open>SQLERRM\<close>, the engine's
  own message for that fault, with the database unchanged. A failure object carries the
  message and nothing else: there is no separate kind. And whenever none of the three
  checks on an existing swap refuses the call and the transfer raises a fault, the
  result is that failure object with \<open>SQLERRM\<close> of the fault.
\<close>

theorem settle_result_shape:
  "(fst (handle_swap_completion auth_uid now sid db) = succeeded ''Swap completed successfully''
    \<or> fst (handle_swap_completion auth_uid now sid db) \<in>
         failure ` {''Swap not found'', ''Swap is not in progress'', ''Unauthorized'',
                    ''Insufficient credits''}
    \<or> (\<exists>s' e'. map_of (swaps db) sid = Some s' \<and> transfer_credits now sid s' db = Inl e'
           \<and> handle_swap_completion auth_uid now sid db = (failure (SQLERRM e'), db)))
   \<and> (map_of (swaps db) sid = Some s
       \<and> \<not> is_true (sql_ne (status s) (Some in_progress))
       \<and> \<not> is_true (sql_and (sql_ne auth_uid (Some (teacher_id s)))
                              (sql_ne auth_uid (Some (learner_id s))))
       \<and> \<not> is_true (sql_lt (select_credits db (learner_id s)) (Some (total_credits s)))
       \<and> transfer_credits now sid s db = Inl e
      \<longrightarrow> handle_swap_completion auth_uid now sid db = (failure (SQLERRM e), db))"
proof (rule conjI)
  show "fst (handle_swap_completion auth_uid now sid db) = succeeded ''Swap completed successfully''
    \<or> fst (handle_swap_completion auth_uid now sid db) \<in>
         failure ` {''Swap not found'', ''Swap is not in progress'', ''Unauthorized'',
                    ''Insufficient credits''}
    \<or> (\<exists>s' e'. map_of (swaps db) sid = Some s' \<and> transfer_credits now sid s' db = Inl e'
           \<and> handle_swap_completion auth_uid now sid db = (failure (SQLERRM e'), db))"
  proof (cases "map_of (swaps db) sid")
    case None
    then show ?thesis by (simp add: handle_swap_completion_def)
  next
    case (Some s')
    show ?thesis
    proof (cases "transfer_credits now sid s' db")
      case (Inl e')
      with Some show ?thesis by (simp add: handle_swap_completion_def)
    next
      case (Inr db')
      with Some show ?thesis by (simp add: handle_swap_completion_def)
    qed
  qed
  show "map_of (swaps db) sid = Some s
       \<and> \<not> is_true (sql_ne (status s) (Some in_progress))
       \<and> \<not> is_true (sql_and (sql_ne auth_uid (Some (teacher_id s)))
                              (sql_ne auth_uid (Some (learner_id s))))
       \<and> \<not> is_true (sql_lt (select_credits db (learner_id s)) (Some (total_credits s)))
       \<and> transfer_credits now sid s db = Inl e
      \<longrightarrow> handle_swap_completion auth_uid now sid db = (failure (SQLERRM e), db)"
    using settle_fault_passed_on by blast
qed

text \<open>
  The teacher's balance at the largest INTEGER: the swap is \<open>in_progress\<close>, the caller
  is the learner, the learner's 20 cover the 10, the teacher's credit raises
  \<open>integer out of range\<close>, and that message is the \<open>error\<close> of the result.
\<close>

theorem settle_result_shape_witness:
  "handle_swap_completion (Some ''learner'') 7 ''swap-1'' (example_db 2147483647 20 in_progress)
     = (failure ''integer out of range'', example_db 2147483647 20 in_progress)"
proof -
  have pre: "map_of (swaps (example_db 2147483647 20 in_progress)) ''swap-1''
        = Some (example_swap in_progress)
       \<and> \<not> is_true (sql_ne (status (example_swap in_progress)) (Some in_progress))
       \<and> \<not> is_true (sql_and (sql_ne (Some ''learner'') (Some (teacher_id (example_swap in_progress))))
                              (sql_ne (Some ''learner'') (Some (learner_id (example_swap in_progress)))))
       \<and> \<not> is_true (sql_lt (select_credits (example_db 2147483647 20 in_progress)
                                (learner_id (example_swap in_progress)))
                              (Some (total_credits (example_swap in_progress))))
       \<and> transfer_credits 7 ''swap-1'' (example_swap in_progress)
            (example_db 2147483647 20 in_progress) = Inl integer_out_of_range"
    by (simp add: example_defs settle_defs)
  have "handle_swap_completion (Some ''learner'') 7 ''swap-1'' (example_db 2147483647 20 in_progress)
     = (failure (SQLERRM integer_out_of_range), example_db 2147483647 20 in_progress)"
    by (rule settle_result_shape [THEN conjunct2, THEN mp, OF pre])
  then show ?thesis by simp
qed

text \<open>
  The engine's message reaches the caller as it is: with the teacher's \<open>skills_taught\<close>
  at the largest INTEGER, the transfer raises \<open>integer out of range\<close>, and the \<open>error\<close>
  of the result is that text, which is none of the four fixed messages.
\<close>

theorem settle_raw_fault_counterexample:
  "transfer_credits 7 ''swap-1'' (example_swap in_progress)
       (example_db 50 20 in_progress
          \<lparr>profiles := AList.update ''teacher''
             ((example_profile ''teacher@example.org'' 50)\<lparr>skills_taught := Some 2147483647\<rparr>)
             (profiles (example_db 50 20 in_progress))\<rparr>)
     = Inl integer_out_of_range
   \<and> error (fst (handle_swap_completion (Some ''learner'') 7 ''swap-1''
       (example_db 50 20 in_progress
          \<lparr>profiles := AList.update ''teacher''
             ((example_profile ''teacher@example.org'' 50)\<lparr>skills_taught := Some 2147483647\<rparr>)
             (profiles (example_db 50 20 in_progress))\<rparr>)))
     = Some (SQLERRM integer_out_of_range)
   \<and> SQLERRM integer_out_of_range \<notin>
       {''Swap not found'', ''Swap is not in progress'', ''Unauthorized'', ''Insufficient credits''}"
  by (simp add: example_defs settle_defs)

section \<open>Settlement: the precondition checks\<close>

text \<open>
  The checks in their order, for a caller with a user session: no such swap, a swap in
  one of the five other states, a caller who is neither party. (The balance check is
  \<open>settle_insufficient\<close>.)
\<close>

lemma settle_check_order:
  "(map_of (swaps db) sid = None
      \<longrightarrow> handle_swap_completion auth_uid now sid db = (failure ''Swap not found'', db))
   \<and> (map_of (swaps db) sid = Some s \<and> status s = Some st \<and> st \<noteq> in_progress
      \<longrightarrow> handle_swap_completion auth_uid now sid db = (failure ''Swap is not in progress'', db))
   \<and> (map_of (swaps db) sid = Some s \<and> status s = Some in_progress
       \<and> auth_uid = Some a \<and> a \<noteq> teacher_id s \<and> a \<noteq> learner_id s
      \<longrightarrow> handle_swap_completion auth_uid now sid db = (failure ''Unauthorized'', db))"
  by (simp add: handle_swap_completion_def is_true_def sql_and_def sql_ne_def)

lemma transfer_credits_swaps:
  assumes "transfer_credits now sid s db = Inr db'" "map_of (swaps db) sid = Some s0"
  shows "map_of (swaps db') sid
      = Some (s0\<lparr>status := Some completed, swap_updated_at := Some now\<rparr>)"
proof -
  from assms(1) obtain db1 db2 db3 where
    u1: "update_profile (learner_id s) (debit_credits (total_credits s)) db = Inr db1" and
    u2: "update_profile (teacher_id s) (credit_teacher (total_credits s)) db1 = Inr db2" and
    u3: "update_profile (learner_id s) bump_skills_learned db2 = Inr db3" and
    ins: "insert_transaction (payment_row sid s) (complete_swap now sid db3) = Inr db'"
    by (auto simp: transfer_credits_def split: sum.splits)
  have "swaps db3 = swaps db"
    using update_profile_rest [OF u1] update_profile_rest [OF u2] update_profile_rest [OF u3]
    by simp
  then have "map_of (swaps (complete_swap now sid db3)) sid
      = Some (s0\<lparr>status := Some completed, swap_updated_at := Some now\<rparr>)"
    using assms(2) by (simp add: complete_swap_def map_of_update_same)
  moreover have "swaps db' = swaps (complete_swap now sid db3)"
    using ins by (auto simp: insert_transaction_def split: if_splits)
  ultimately show ?thesis by simp
qed

text \<open>
  After a call that succeeded, the next call on the same swap, by anyone, is rejected at
  the status check and changes nothing.
\<close>

lemma settle_second_call:
  assumes "handle_swap_completion auth_uid now sid db = (r, db')" "success r"
  shows "handle_swap_completion auth_uid' now' sid db' = (failure ''Swap is not in progress'', db')"
proof -
  from assms obtain s where s: "map_of (swaps db) sid = Some s"
    and tr: "transfer_credits now sid s db = Inr db'"
    by (auto simp: handle_swap_completion_def failure_def split: option.splits if_splits sum.splits)
  from transfer_credits_swaps [OF tr s]
  show ?thesis by (simp add: handle_swap_completion_def is_true_def sql_ne_def)
qed

text \<open>
  The status check passes over a NULL status as the authorization check passes over a
  NULL caller: a party sets the status of a \<open>pending\<close> swap to NULL, which the update
  policy admits, and the settlement of that swap succeeds.
\<close>

lemma settle_null_status:
  "swap_status_of (update_swap_status (Some ''teacher'') ''swap-1'' None
       (example_db 50 20 pending)) ''swap-1'' = Some None
   \<and> fst (handle_swap_completion (Some ''teacher'') 7 ''swap-1''
          (update_swap_status (Some ''teacher'') ''swap-1'' None (example_db 50 20 pending)))
       = succeeded ''Swap completed successfully''"
  by (simp add: example_defs settle_defs update_swap_status_def users_can_update_their_swaps_def
      sql_or_def sql_eq_def swap_status_of_def)

text \<open>
  C2. The authorization check does not reject a caller without a user session. With
  \<open>auth.uid()\<close> NULL both inequalities of the check are NULL, the \<open>IF\<close> is not taken, and
  the call goes on to the balance check and the transfer: on the example (an
  \<open>in_progress\<close> swap of 10 credits, the teacher at 50, the learner at 20) the call
  succeeds and moves the credits. The update policy on swaps, which states the same
  condition positively, does not admit that caller.
\<close>

theorem settle_unauthenticated_call:
  "handle_swap_completion None 7 ''swap-1'' (example_db 50 20 in_progress) =
     (succeeded ''Swap completed successfully'',
      \<lparr>profiles =
         [(''teacher'', (example_profile ''teacher@example.org'' 60)\<lparr>skills_taught := Some 1\<rparr>),
          (''learner'', (example_profile ''learner@example.org'' 10)\<lparr>skills_learned := Some 1\<rparr>),
          (''other'', example_profile ''other@example.org'' 100)],
       swaps = [(''swap-1'', (example_swap completed)\<lparr>swap_updated_at := Some 7\<rparr>)],
       transactions =
         [\<lparr>from_user_id = Some ''learner'', to_user_id = ''teacher'', swap_id = Some ''swap-1'',
           amount = 10, transaction_type = swap_payment,
           description = Some ''Payment for completed skill swap''\<rparr>]\<rparr>)
   \<and> users_can_update_their_swaps None (example_swap in_progress) = False"
  by (simp add: example_defs settle_defs users_can_update_their_swaps_def sql_or_def sql_eq_def)

section \<open>Swap status changes under the update policy\<close>

lemma policy_party:
  "users_can_update_their_swaps auth_uid s
     = (auth_uid = Some (teacher_id s) \<or> auth_uid = Some (learner_id s))"
  by (cases auth_uid) (auto simp: users_can_update_their_swaps_def is_true_def sql_or_def sql_eq_def)

text \<open>
  C5. A status update requested by the teacher or the learner of a swap is applied
  whatever the current status of the swap and whatever the requested status (NULL
  included, on either side): the swap ends in the requested status and nothing else
  changes. No such update is refused, and there is no transition error. The one
  transition that is checked is the settlement: on a swap whose status is one of the
  five values other than \<open>in_progress\<close> it fails with \<open>Swap is not in progress\<close> and
  changes nothing.
\<close>

theorem swap_update_any_transition:
  assumes "map_of (swaps db) sid = Some s"
    and "auth_uid = Some (teacher_id s) \<or> auth_uid = Some (learner_id s)"
  shows "update_swap_status auth_uid sid new_status db
           = db\<lparr>swaps := AList.update sid (s\<lparr>status := new_status\<rparr>) (swaps db)\<rparr>
     \<and> swap_status_of (update_swap_status auth_uid sid new_status db) sid = Some new_status
     \<and> (status s = Some st \<and> st \<noteq> in_progress \<longrightarrow>
          handle_swap_completion auth_uid now sid db = (failure ''Swap is not in progress'', db))"
  using assms
  by (simp add: update_swap_status_def policy_party swap_status_of_def map_of_update_same
      handle_swap_completion_def is_true_def sql_ne_def)

text \<open>
  The teacher reopens a \<open>declined\<close> swap as \<open>pending\<close>; the settlement of the same
  \<open>declined\<close> swap is refused.
\<close>

theorem swap_update_any_transition_witness:
  "update_swap_status (Some ''teacher'') ''swap-1'' (Some pending) (example_db 50 20 declined)
     = example_db 50 20 pending
   \<and> swap_status_of (update_swap_status (Some ''teacher'') ''swap-1'' (Some pending)
        (example_db 50 20 declined)) ''swap-1'' = Some (Some pending)
   \<and> handle_swap_completion (Some ''teacher'') 7 ''swap-1'' (example_db 50 20 declined)
        = (failure ''Swap is not in progress'', example_db 50 20 declined)"
proof -
  have row: "map_of (swaps (example_db 50 20 declined)) ''swap-1'' = Some (example_swap declined)"
    by (simp add: example_defs)
  have party: "Some ''teacher'' = Some (teacher_id (example_swap declined))
      \<or> Some ''teacher'' = Some (learner_id (example_swap declined))"
    by (simp add: example_defs)
  have closed: "status (example_swap declined) = Some declined \<and> declined \<noteq> in_progress"
    by (simp add: example_defs)
  note applied = swap_update_any_transition [OF row party, of "Some pending" declined 7]
  have "update_swap_status (Some ''teacher'') ''swap-1'' (Some pending) (example_db 50 20 declined)
      = (example_db 50 20 declined)
          \<lparr>swaps := AList.update ''swap-1'' ((example_swap declined)\<lparr>status := Some pending\<rparr>)
             (swaps (example_db 50 20 declined))\<rparr>"
    by (rule applied [THEN conjunct1])
  also have "\<dots> = example_db 50 20 pending"
    by (simp add: example_defs)
  finally have first: "update_swap_status (Some ''teacher'') ''swap-1'' (Some pending)
      (example_db 50 20 declined) = example_db 50 20 pending" .
  from first applied [THEN conjunct2, THEN conjunct1]
    applied [THEN conjunct2, THEN conjunct2, THEN mp, OF closed]
  show ?thesis by (intro conjI)
qed

text \<open>
  The two cases the specification names: the learner cancels a swap that is
  \<open>in_progress\<close>, and the teacher puts a \<open>completed\<close> swap back to \<open>in_progress\<close>. Both
  updates are applied.
\<close>

theorem swap_cancel_in_progress_counterexample:
  "swap_status_of (example_db 50 20 in_progress) ''swap-1'' = Some (Some in_progress)
   \<and> swap_status_of (update_swap_status (Some ''learner'') ''swap-1'' (Some cancelled)
        (example_db 50 20 in_progress)) ''swap-1'' = Some (Some cancelled)
   \<and> swap_status_of (example_db 50 20 completed) ''swap-1'' = Some (Some completed)
   \<and> swap_status_of (update_swap_status (Some ''teacher'') ''swap-1'' (Some in_progress)
        (example_db 50 20 completed)) ''swap-1'' = Some (Some in_progress)"
  by (simp add: example_defs update_swap_status_def users_can_update_their_swaps_def
      is_true_def sql_or_def sql_eq_def swap_status_of_def)

text \<open>
  C6. A status update by a caller who is neither the teacher nor the learner of the swap
  (a caller without a session included) changes nothing, and raises nothing. An update
  by the learner is applied as the teacher's is: the policy does not tell the two
  parties apart, so the learner can accept or decline the request.
\<close>

theorem swap_update_authorization:
  assumes "map_of (swaps db) sid = Some s"
  shows "(auth_uid \<noteq> Some (teacher_id s) \<and> auth_uid \<noteq> Some (learner_id s)
            \<longrightarrow> update_swap_status auth_uid sid new_status db = db)
     \<and> swap_status_of (update_swap_status (Some (learner_id s)) sid new_status db) sid
         = Some new_status
     \<and> swap_status_of (update_swap_status (Some (teacher_id s)) sid new_status db) sid
         = Some new_status"
  using assms by (simp add: update_swap_status_def policy_party swap_status_of_def map_of_update_same)

theorem swap_update_authorization_witness:
  "update_swap_status (Some ''other'') ''swap-1'' (Some accepted) (example_db 50 20 pending)
     = example_db 50 20 pending
   \<and> update_swap_status None ''swap-1'' (Some accepted) (example_db 50 20 pending)
     = example_db 50 20 pending"
proof (rule conjI)
  have row: "map_of (swaps (example_db 50 20 pending)) ''swap-1'' = Some (example_swap pending)"
    by (simp add: example_defs)
  have other: "Some ''other'' \<noteq> Some (teacher_id (example_swap pending))
      \<and> Some ''other'' \<noteq> Some (learner_id (example_swap pending))"
    by (simp add: example_defs)
  have nobody: "None \<noteq> Some (teacher_id (example_swap pending))
      \<and> None \<noteq> Some (learner_id (example_swap pending))"
    by simp
  show "update_swap_status (Some ''other'') ''swap-1'' (Some accepted) (example_db 50 20 pending)
     = example_db 50 20 pending"
    by (rule swap_update_authorization [OF row, THEN conjunct1, THEN mp, OF other])
  show "update_swap_status None ''swap-1'' (Some accepted) (example_db 50 20 pending)
     = example_db 50 20 pending"
    by (rule swap_update_authorization [OF row, THEN conjunct1, THEN mp, OF nobody])
qed

text \<open>The learner accepts the pending request: the swap is \<open>accepted\<close>.\<close>

theorem swap_respond_by_learner_counterexample:
  "swap_status_of (example_db 50 20 pending) ''swap-1'' = Some (Some pending)
   \<and> map_option learner_id (map_of (swaps (example_db 50 20 pending)) ''swap-1'') = Some ''learner''
   \<and> map_option teacher_id (map_of (swaps (example_db 50 20 pending)) ''swap-1'') = Some ''teacher''
   \<and> swap_status_of (update_swap_status (Some ''learner'') ''swap-1'' (Some accepted)
        (example_db 50 20 pending)) ''swap-1'' = Some (Some accepted)"
  by (simp add: example_defs update_swap_status_def users_can_update_their_swaps_def
      is_true_def sql_or_def sql_eq_def swap_status_of_def)

section \<open>Provisioning\<close>

lemma rows_update:
  "map_of al k = Some p \<Longrightarrow>
   length (filter (\<lambda>row. fst row = j) (AList.update k p' al)) = length (filter (\<lambda>row. fst row = j) al)"
  by (induction al) (auto split: if_splits)

lemma rows_none: "k \<notin> fst ` set al \<Longrightarrow> filter (\<lambda>row. fst row = k) al = []"
  by (induction al) auto

lemma rows_distinct:
  "distinct (map fst al) \<Longrightarrow> map_of al k = Some p \<Longrightarrow> length (filter (\<lambda>row. fst row = k) al) = 1"
  by (induction al) (auto simp: rows_none split: if_splits)

lemma update_same: "map_of al k = Some v \<Longrightarrow> AList.update k v al = al"
  by (induction al) (auto split: if_splits)

lemma coalesce_twice: "coalesce [a, coalesce [a, b]] = coalesce [a, b]"
  by (cases a; cases b) simp_all

lemma coalesce_same: "coalesce [a, a] = a"
  by (cases a) simp_all

lemma coalesce_pair: "coalesce [a, b] = (case a of Some x \<Rightarrow> Some x | None \<Rightarrow> b)"
  by (cases a; cases b) simp_all

lemma handle_new_user_cases:
  assumes "handle_new_user now NEW db = Inr db'"
  shows "\<exists>e. user_email NEW = Some e \<and>
     ((\<exists>p. map_of (profiles db) (user_id NEW) = Some p \<and>
          db' = db\<lparr>profiles := AList.update (user_id NEW)
                     (p\<lparr>full_name := coalesce [excluded_full_name NEW, full_name p],
                        avatar_url := coalesce [excluded_avatar_url NEW, avatar_url p],
                        updated_at := Some now\<rparr>) (profiles db)\<rparr>)
      \<or> (map_of (profiles db) (user_id NEW) = None \<and> \<not> email_taken db e \<and>
          db' = db\<lparr>profiles := profiles db @
             [(user_id NEW, profile_defaults now e (excluded_full_name NEW) (excluded_avatar_url NEW))]\<rparr>))"
  using assms
  by (auto simp: handle_new_user_def split: option.splits if_splits)

lemma handle_new_user_settled:
  assumes "handle_new_user now NEW db = Inr db'"
  shows "\<exists>p. map_of (profiles db') (user_id NEW) = Some p \<and> settled_row NEW p \<and> updated_at p = Some now"
  using handle_new_user_cases [OF assms]
  by (auto simp: settled_row_def coalesce_twice coalesce_same map_of_update_same map_add_def
      profile_defaults_def)

lemma handle_new_user_again:
  assumes "map_of (profiles db) (user_id NEW) = Some p" "settled_row NEW p" "user_email NEW = Some e"
  shows "handle_new_user t NEW db = Inr (set_updated_at (user_id NEW) t db)"
  using assms by (simp add: handle_new_user_def settled_row_def set_updated_at_def)

lemma set_updated_at_twice:
  "set_updated_at i t' (set_updated_at i t db) = set_updated_at i t' db"
  by (auto simp: set_updated_at_def map_of_update_same AList.update_last split: option.splits)

lemma set_updated_at_row:
  "map_of (profiles db) i = Some p \<Longrightarrow>
     map_of (profiles (set_updated_at i t db)) i = Some (p\<lparr>updated_at := Some t\<rparr>)"
  by (simp add: set_updated_at_def map_of_update_same)

lemma set_updated_at_same:
  "map_of (profiles db) i = Some p \<Longrightarrow> updated_at p = Some t \<Longrightarrow> set_updated_at i t db = db"
  by (simp add: set_updated_at_def update_same)

lemma provision_runs_again:
  assumes "map_of (profiles db) (user_id NEW) = Some p" "settled_row NEW p" "user_email NEW = Some e"
  shows "provision_runs ts NEW (set_updated_at (user_id NEW) t db)
     = Inr (set_updated_at (user_id NEW) (last (t # ts)) db)"
  using assms
proof (induction ts arbitrary: t)
  case Nil
  then show ?case by simp
next
  case (Cons t' ts)
  have row: "map_of (profiles (set_updated_at (user_id NEW) t db)) (user_id NEW)
      = Some (p\<lparr>updated_at := Some t\<rparr>)"
    using Cons.prems(1) by (rule set_updated_at_row)
  have st: "settled_row NEW (p\<lparr>updated_at := Some t\<rparr>)"
    using Cons.prems(2) by (simp add: settled_row_def)
  have "handle_new_user t' NEW (set_updated_at (user_id NEW) t db)
      = Inr (set_updated_at (user_id NEW) t' db)"
    using handle_new_user_again [OF row st Cons.prems(3)] by (simp add: set_updated_at_twice)
  then show ?case using Cons.IH [OF Cons.prems] by simp
qed

lemma handle_new_user_rows:
  assumes "handle_new_user now NEW db = Inr db'" "distinct (map fst (profiles db))"
  shows "profile_rows db' (user_id NEW) = 1 \<and> transactions db' = transactions db"
  using handle_new_user_cases [OF assms(1)] assms(2)
  by (auto simp: profile_rows_def rows_update rows_distinct rows_none map_of_eq_None_iff)

lemma set_updated_at_rows: "profile_rows (set_updated_at i t db) j = profile_rows db j"
  by (auto simp: set_updated_at_def profile_rows_def rows_update split: option.splits)

lemma set_updated_at_rest:
  "transactions (set_updated_at i t db) = transactions db \<and> swaps (set_updated_at i t db) = swaps db"
  by (auto simp: set_updated_at_def split: option.splits)

lemma signUp_insert_existing:
  "map_of (profiles db) i = Some p \<Longrightarrow> isl (signUp_insert a now i e fn db)"
  by (simp add: signUp_insert_def)

text \<open>
  C9. On a table whose ids are distinct, once the trigger has run for an identity there
  is exactly one profile row for its id and the ledger is as before: provisioning writes
  no transaction. Running the trigger again for that identity, any number of times,
  succeeds each time and changes nothing but \<open>updated_at\<close> of that row, and the insert of
  \<open>signUp\<close> for the same id is refused and changes nothing. On an id conflict the update
  sets \<open>full_name\<close> and \<open>avatar_url\<close> each to the incoming value when that is not NULL,
  and keeps the stored value only when the incoming one is NULL; it sets \<open>updated_at\<close>,
  and leaves every other column, the balance among them, as stored.
\<close>

theorem provisioning_upsert:
  assumes pk: "distinct (map fst (profiles db))"
    and run: "handle_new_user t NEW db = Inr db1"
  shows "profile_rows db1 (user_id NEW) = 1
     \<and> transactions db1 = transactions db
     \<and> provision_runs ts NEW db1 = Inr (set_updated_at (user_id NEW) (last (t # ts)) db1)
     \<and> profile_rows (set_updated_at (user_id NEW) (last (t # ts)) db1) (user_id NEW) = 1
     \<and> transactions (set_updated_at (user_id NEW) (last (t # ts)) db1) = transactions db
     \<and> isl (signUp_insert a t' (user_id NEW) e fn db1)
     \<and> (\<forall>p. map_of (profiles db) (user_id NEW) = Some p \<longrightarrow>
           map_of (profiles db1) (user_id NEW) =
             Some (p\<lparr>full_name := (case excluded_full_name NEW of Some n \<Rightarrow> Some n | None \<Rightarrow> full_name p),
                     avatar_url := (case excluded_avatar_url NEW of Some u \<Rightarrow> Some u | None \<Rightarrow> avatar_url p),
                     updated_at := Some t\<rparr>))"
proof -
  from handle_new_user_settled [OF run] obtain p1 where
    p1: "map_of (profiles db1) (user_id NEW) = Some p1" "settled_row NEW p1" "updated_at p1 = Some t"
    by blast
  from handle_new_user_cases [OF run] obtain em where em: "user_email NEW = Some em" by blast
  have rows: "profile_rows db1 (user_id NEW) = 1" "transactions db1 = transactions db"
    using handle_new_user_rows [OF run pk] by simp_all
  have same: "set_updated_at (user_id NEW) t db1 = db1"
    using p1 by (simp add: set_updated_at_same)
  have runs: "provision_runs ts NEW db1 = Inr (set_updated_at (user_id NEW) (last (t # ts)) db1)"
    using provision_runs_again [OF p1(1,2) em, of ts t] same by simp
  have conflict: "\<forall>p. map_of (profiles db) (user_id NEW) = Some p \<longrightarrow>
           map_of (profiles db1) (user_id NEW) =
             Some (p\<lparr>full_name := (case excluded_full_name NEW of Some n \<Rightarrow> Some n | None \<Rightarrow> full_name p),
                     avatar_url := (case excluded_avatar_url NEW of Some u \<Rightarrow> Some u | None \<Rightarrow> avatar_url p),
                     updated_at := Some t\<rparr>)"
    using handle_new_user_cases [OF run]
    by (auto simp: map_of_update_same coalesce_pair)
  show ?thesis
    using rows runs conflict signUp_insert_existing [OF p1(1)]
    by (simp add: set_updated_at_rows set_updated_at_rest)
qed

text \<open>
  The trigger on a stored profile named Alice, for an identity whose provider reports
  the name Bob; then two more runs and the insert of \<open>signUp\<close>. The stored row keeps
  its balance of 40 and takes the incoming name and picture.
\<close>

theorem provisioning_upsert_witness:
  "handle_new_user 9 example_new_user example_db_alice = Inr example_db_bob
   \<and> profile_rows example_db_bob ''new-user'' = 1
   \<and> provision_runs [10, 11] example_new_user example_db_bob
        = Inr (set_updated_at ''new-user'' 11 example_db_bob)
   \<and> profile_rows (set_updated_at ''new-user'' 11 example_db_bob) ''new-user'' = 1
   \<and> transactions (set_updated_at ''new-user'' 11 example_db_bob) = []
   \<and> isl (signUp_insert (Some ''new-user'') 12 ''new-user'' ''user@example.org'' ''Bob'' example_db_bob)
   \<and> map_of (profiles example_db_bob) ''new-user''
        = Some ((example_profile ''user@example.org'' 40)
            \<lparr>full_name := Some ''Bob'', avatar_url := Some ''https://example.org/b.png'',
             updated_at := Some 9\<rparr>)"
proof -
  have pk: "distinct (map fst (profiles example_db_alice))"
    by (simp add: example_db_alice_def example_defs)
  have run: "handle_new_user 9 example_new_user example_db_alice = Inr example_db_bob"
    by (simp add: provision_defs example_db_alice_def example_db_bob_def example_defs)
  have uid: "user_id example_new_user = ''new-user''"
    by (simp add: example_new_user_def)
  have led: "transactions example_db_alice = []"
    by (simp add: example_db_alice_def example_defs)
  have stored: "map_of (profiles example_db_alice) ''new-user''
      = Some ((example_profile ''user@example.org'' 40)\<lparr>full_name := Some ''Alice''\<rparr>)"
    by (simp add: example_db_alice_def example_defs)
  have incoming: "excluded_full_name example_new_user = Some ''Bob''"
    "excluded_avatar_url example_new_user = Some ''https://example.org/b.png''"
    by (simp_all add: excluded_full_name_def excluded_avatar_url_def example_new_user_def)
  note th = provisioning_upsert [OF pk run, of "[10, 11]" "Some ''new-user''" 12
      "''user@example.org''" "''Bob''", unfolded uid led]
  have rest: "profile_rows example_db_bob ''new-user'' = 1
   \<and> provision_runs [10, 11] example_new_user example_db_bob
        = Inr (set_updated_at ''new-user'' 11 example_db_bob)
   \<and> profile_rows (set_updated_at ''new-user'' 11 example_db_bob) ''new-user'' = 1
   \<and> transactions (set_updated_at ''new-user'' 11 example_db_bob) = []
   \<and> isl (signUp_insert (Some ''new-user'') 12 ''new-user'' ''user@example.org'' ''Bob'' example_db_bob)"
    using th by simp
  have "map_of (profiles example_db_bob) ''new-user''
      = Some ((example_profile ''user@example.org'' 40)\<lparr>full_name := Some ''Alice''\<rparr>
          \<lparr>full_name := (case excluded_full_name example_new_user of
                 Some n \<Rightarrow> Some n
               | None \<Rightarrow> full_name ((example_profile ''user@example.org'' 40)\<lparr>full_name := Some ''Alice''\<rparr>)),
           avatar_url := (case excluded_avatar_url example_new_user of
                 Some u \<Rightarrow> Some u
               | None \<Rightarrow> avatar_url ((example_profile ''user@example.org'' 40)\<lparr>full_name := Some ''Alice''\<rparr>)),
           updated_at := Some 9\<rparr>)"
    using th stored by blast
  then have row: "map_of (profiles example_db_bob) ''new-user''
        = Some ((example_profile ''user@example.org'' 40)
            \<lparr>full_name := Some ''Bob'', avatar_url := Some ''https://example.org/b.png'',
             updated_at := Some 9\<rparr>)"
    by (simp add: incoming)
  from run rest row show ?thesis by (intro conjI) blast+
qed

text \<open>
  The stored name does not win: the profile holds the non-NULL name Alice, the incoming
  name is Bob, and after the trigger the profile holds Bob.
\<close>

theorem provisioning_incoming_counterexample:
  "map_option full_name (map_of (profiles example_db_alice) ''new-user'') = Some (Some ''Alice'')
   \<and> excluded_full_name example_new_user = Some ''Bob''
   \<and> handle_new_user 9 example_new_user example_db_alice = Inr example_db_bob
   \<and> map_option full_name (map_of (profiles example_db_bob) ''new-user'') = Some (Some ''Bob'')"
  by (simp add: provision_defs example_db_alice_def example_db_bob_def example_defs)

text \<open>
  C10. Provisioning creates the profile and gives it the declared defaults. The trigger,
  for an identity with an email that no stored profile has and with no profile stored
  for its id, does not fault, and the profile it leaves for the id has \<open>credits\<close> 100,
  \<open>skills_taught\<close> 0, \<open>skills_learned\<close> 0, \<open>average_rating\<close> 0.0 and \<open>total_reviews\<close> 0.
  The insert of \<open>signUp\<close>, made by the identity itself under the same two conditions,
  does the same. Neither writes to the ledger, in these cases or in any other in which
  it does not fault: no transaction row, and so no \<open>signup_bonus\<close> row, exists for the
  initial credits.
\<close>

theorem provisioned_profile_defaults:
  "(user_email NEW = Some e \<and> map_of (profiles db) (user_id NEW) = None \<and> \<not> email_taken db e
      \<longrightarrow> map_option starts_with_defaults
             (profile_after (handle_new_user now NEW db) (user_id NEW)) = Some True
          \<and> ledger_after (handle_new_user now NEW db) = Some (transactions db))
   \<and> (map_of (profiles db) i = None \<and> \<not> email_taken db e'
      \<longrightarrow> map_option starts_with_defaults
             (profile_after (signUp_insert (Some i) now i e' fn db) i) = Some True
          \<and> ledger_after (signUp_insert (Some i) now i e' fn db) = Some (transactions db))
   \<and> ledger_after (handle_new_user now NEW db) \<in> {None, Some (transactions db)}
   \<and> ledger_after (signUp_insert auth_uid now i e' fn db) \<in> {None, Some (transactions db)}"
proof (intro conjI impI)
  assume a: "user_email NEW = Some e \<and> map_of (profiles db) (user_id NEW) = None
      \<and> \<not> email_taken db e"
  then have run: "handle_new_user now NEW db = Inr (db\<lparr>profiles := profiles db @
      [(user_id NEW, profile_defaults now e (excluded_full_name NEW) (excluded_avatar_url NEW))]\<rparr>)"
    by (simp add: handle_new_user_def)
  from a show "map_option starts_with_defaults
      (profile_after (handle_new_user now NEW db) (user_id NEW)) = Some True"
    unfolding run
    by (simp add: profile_after_def map_add_def starts_with_defaults_def profile_defaults_def)
  show "ledger_after (handle_new_user now NEW db) = Some (transactions db)"
    unfolding run by (simp add: ledger_after_def)
next
  assume b: "map_of (profiles db) i = None \<and> \<not> email_taken db e'"
  then have ins: "signUp_insert (Some i) now i e' fn db = Inr (db\<lparr>profiles := profiles db @
      [(i, profile_defaults now e' (Some fn) None)]\<rparr>)"
    by (simp add: signUp_insert_def is_true_def sql_eq_def)
  from b show "map_option starts_with_defaults
      (profile_after (signUp_insert (Some i) now i e' fn db) i) = Some True"
    unfolding ins
    by (simp add: profile_after_def map_add_def starts_with_defaults_def profile_defaults_def)
  show "ledger_after (signUp_insert (Some i) now i e' fn db) = Some (transactions db)"
    unfolding ins by (simp add: ledger_after_def)
next
  show "ledger_after (handle_new_user now NEW db) \<in> {None, Some (transactions db)}"
    by (auto simp: ledger_after_def handle_new_user_def split: sum.splits option.splits if_splits)
  show "ledger_after (signUp_insert auth_uid now i e' fn db) \<in> {None, Some (transactions db)}"
    by (auto simp: ledger_after_def signUp_insert_def split: sum.splits if_splits)
qed

text \<open>
  The trigger for the example identity on the example state, where no profile is stored
  for it and nobody has its email, and the insert of \<open>signUp\<close> in the same situation.
\<close>

theorem provisioned_profile_defaults_witness:
  "map_option starts_with_defaults
     (profile_after (handle_new_user 9 example_new_user (example_db 50 20 pending)) ''new-user'')
     = Some True
   \<and> ledger_after (handle_new_user 9 example_new_user (example_db 50 20 pending)) = Some []
   \<and> map_option starts_with_defaults
        (profile_after (signUp_insert (Some ''new-user'') 9 ''new-user'' ''user@example.org''
           ''Bob'' (example_db 50 20 pending)) ''new-user'') = Some True
   \<and> ledger_after (signUp_insert (Some ''new-user'') 9 ''new-user'' ''user@example.org''
        ''Bob'' (example_db 50 20 pending)) = Some []"
proof -
  have uid: "user_id example_new_user = ''new-user''"
    by (simp add: example_new_user_def)
  have led: "transactions (example_db 50 20 pending) = []"
    by (simp add: example_defs)
  have fresh: "user_email example_new_user = Some ''user@example.org''
      \<and> map_of (profiles (example_db 50 20 pending)) (user_id example_new_user) = None
      \<and> \<not> email_taken (example_db 50 20 pending) ''user@example.org''"
    by (simp add: example_new_user_def email_taken_def example_defs)
  have free: "map_of (profiles (example_db 50 20 pending)) ''new-user'' = None
      \<and> \<not> email_taken (example_db 50 20 pending) ''user@example.org''"
    by (simp add: email_taken_def example_defs)
  from provisioned_profile_defaults [THEN conjunct1, THEN mp, OF fresh, unfolded uid led]
    provisioned_profile_defaults [THEN conjunct2, THEN conjunct1, THEN mp, OF free, unfolded led]
  show ?thesis by blast
qed

section \<open>The primary keys stay distinct\<close>

lemma update_profile_keys:
  "update_profile i f db = Inr db' \<Longrightarrow> primary_keys db \<Longrightarrow> primary_keys db'"
  by (auto simp: primary_keys_def AList.distinct_update dest!: update_profile_cases)

lemma transfer_credits_keys:
  assumes "transfer_credits now sid s db = Inr db'" "primary_keys db"
  shows "primary_keys db'"
proof -
  from assms(1) obtain db1 db2 db3 where
    u1: "update_profile (learner_id s) (debit_credits (total_credits s)) db = Inr db1" and
    u2: "update_profile (teacher_id s) (credit_teacher (total_credits s)) db1 = Inr db2" and
    u3: "update_profile (learner_id s) bump_skills_learned db2 = Inr db3" and
    ins: "insert_transaction (payment_row sid s) (complete_swap now sid db3) = Inr db'"
    by (auto simp: transfer_credits_def split: sum.splits)
  have "primary_keys db3"
    using update_profile_keys [OF u3 update_profile_keys [OF u2 update_profile_keys [OF u1 assms(2)]]] .
  then have "primary_keys (complete_swap now sid db3)"
    by (auto simp: primary_keys_def complete_swap_def AList.distinct_update split: option.splits)
  with ins show ?thesis
    by (auto simp: primary_keys_def insert_transaction_def split: if_splits)
qed

lemma settle_keeps_keys:
  "primary_keys db \<Longrightarrow> primary_keys (snd (handle_swap_completion auth_uid now sid db))"
  by (simp add: handle_swap_completion_def transfer_credits_keys split: option.splits sum.splits)

lemma update_swap_status_keeps_keys:
  "primary_keys db \<Longrightarrow> primary_keys (update_swap_status auth_uid sid st db)"
  by (auto simp: update_swap_status_def primary_keys_def AList.distinct_update split: option.splits)

lemma handle_new_user_keeps_keys:
  "primary_keys db \<Longrightarrow> handle_new_user now NEW db = Inr db' \<Longrightarrow> primary_keys db'"
  by (auto simp: primary_keys_def AList.distinct_update map_of_eq_None_iff
      dest!: handle_new_user_cases)

lemma signUp_insert_keeps_keys:
  "primary_keys db \<Longrightarrow> signUp_insert auth_uid now i e fn db = Inr db' \<Longrightarrow> primary_keys db'"
  by (auto simp: signUp_insert_def primary_keys_def map_of_eq_None_iff split: if_splits)


end
